theory Spec2Isabelle
  imports Complex_Main
begin

section \<open>Roots fulfillment savings calculator\<close>

text \<open>
  A shallow embedding of the cost engine of the calculator:
  \<^verbatim>\<open>src/lib/assumptions.ts\<close> (the assumptions table and its accessor) and the function
  \<^verbatim>\<open>calculateSavings\<close> of \<^verbatim>\<open>src/components/calculator-results.tsx\<close> with the
  package table \<^verbatim>\<open>PACKAGE_SERVICES\<close> it reads.

  Numbers. A TypeScript \<^verbatim>\<open>number\<close> is an IEEE-754 binary64 value. The first
  embedding, \<open>calculateSavings\<close>, takes \<^typ>\<open>real\<close> for it: every product, sum, difference
  and quotient of the source is the exact one, and the values NaN and Infinity do not
  exist. This is the reading of the specification ("all arithmetic is total over the real
  numbers", inputs are "well-formed finite numbers"), and the properties stated on it are
  those that do not depend on rounding or on the range of a number. The property that
  does, the sign of the savings, is stated on a second embedding, \<open>calculateSavings64\<close>,
  over a model of binary64 arithmetic with its rounding, its overflow to Infinity and NaN.
  JavaScript arithmetic raises no exception, so neither model has an error value.
\<close>

subsection \<open>The assumptions table (\<^verbatim>\<open>src/lib/assumptions.ts\<close>)\<close>

text \<open>
  Field names are global constants in HOL, so the two \<^verbatim>\<open>laborCostPerMinute\<close> and
  \<^verbatim>\<open>rootsEfficiencyMultiplier\<close> fields carry the suffix \<open>In\<close> or \<open>Out\<close> of their
  interface, and the five groups of \<^verbatim>\<open>Assumptions\<close> carry the suffix \<open>Cfg\<close>
  (\<^verbatim>\<open>assumptions.storage\<close> is \<open>storageCfg assumptions\<close>), which keeps the plain names for
  the cost fields of the result.
\<close>

record StorageAssumptions =
  costPerSqm :: real
  merchantOverheadMultiplier :: real

record HandlingInAssumptions =
  laborCostPerMinuteIn :: real
  merchantTimePerItem :: real
  rootsTimePerItem :: real
  rootsEfficiencyMultiplierIn :: real

record HandlingOutAssumptions =
  laborCostPerMinuteOut :: real
  merchantTimePerOrder :: real
  rootsTimePerOrder :: real
  rootsEfficiencyMultiplierOut :: real

record DeliveryAssumptions =
  deliveryAmman24hrsMerchant :: real
  deliveryAmman24hrsRoots :: real

record OverheadAssumptions =
  merchantOverheadRate :: real
  rootsOverhead :: real

record Assumptions =
  storageCfg :: StorageAssumptions
  handlingInCfg :: HandlingInAssumptions
  handlingOutCfg :: HandlingOutAssumptions
  deliveryCfg :: DeliveryAssumptions
  overheadCfg :: OverheadAssumptions

definition DEFAULT_ASSUMPTIONS :: Assumptions where
  "DEFAULT_ASSUMPTIONS =
     \<lparr> storageCfg =
         \<lparr> costPerSqm = 12,
           merchantOverheadMultiplier = 1.25 \<rparr>,
       handlingInCfg =
         \<lparr> laborCostPerMinuteIn = 0.5,
           merchantTimePerItem = 2,
           rootsTimePerItem = 1,
           rootsEfficiencyMultiplierIn = 0.85 \<rparr>,
       handlingOutCfg =
         \<lparr> laborCostPerMinuteOut = 0.5,
           merchantTimePerOrder = 5,
           rootsTimePerOrder = 3,
           rootsEfficiencyMultiplierOut = 0.85 \<rparr>,
       deliveryCfg =
         \<lparr> deliveryAmman24hrsMerchant = 2.2,
           deliveryAmman24hrsRoots = 2.0 \<rparr>,
       overheadCfg =
         \<lparr> merchantOverheadRate = 0.2,
           rootsOverhead = 0 \<rparr> \<rparr>"

text \<open>\<^verbatim>\<open>getAssumptions()\<close> takes no argument and returns the module constant.\<close>

definition getAssumptions :: Assumptions where
  "getAssumptions = DEFAULT_ASSUMPTIONS"

subsection \<open>Inputs, packages and the result (\<^verbatim>\<open>calculator-results.tsx\<close>)\<close>

record MerchantInput =
  warehouseSize :: real
  ordersPerMonth :: real
  averageItemsPerOrder :: real

text \<open>
  The string-literal unions \<^verbatim>\<open>PackageType\<close> and \<^verbatim>\<open>ServiceType\<close>. The package
  \<^verbatim>\<open>"store-pack"\<close> is \<open>store_pack\<close> and \<^verbatim>\<open>"sort-pack"\<close> is \<open>sort_pack\<close>; the service
  tags are capitalised, the lower-case names being the cost fields below.
\<close>

datatype PackageType = fulfillment | store_pack | sort_pack

datatype ServiceType = Storage | HandlingIn | HandlingOut | Delivery

record PackageConfig =
  label :: string
  description :: string
  services :: "ServiceType list"

fun PACKAGE_SERVICES :: "PackageType \<Rightarrow> PackageConfig" where
  "PACKAGE_SERVICES fulfillment =
     \<lparr> label = ''Fulfillment Package'',
       description = ''Complete end-to-end service'',
       services = [Storage, HandlingIn, HandlingOut, Delivery] \<rparr>"
| "PACKAGE_SERVICES store_pack =
     \<lparr> label = ''Store & Pack Package'',
       description = ''Storage and packaging services'',
       services = [Storage, HandlingIn, HandlingOut] \<rparr>"
| "PACKAGE_SERVICES sort_pack =
     \<lparr> label = ''Sort & Pack Package'',
       description = ''Sorting, packaging and delivery'',
       services = [HandlingIn, HandlingOut, Delivery] \<rparr>"

text \<open>\<^verbatim>\<open>Array.prototype.includes\<close> on the service list (\<open>includes\<close> is a keyword).\<close>

primrec includes_list :: "'a list \<Rightarrow> 'a \<Rightarrow> bool" where
  "includes_list [] y = False"
| "includes_list (x # xs) y = (x = y \<or> includes_list xs y)"

record Cost =
  storage :: real
  handlingIn :: real
  handlingOut :: real
  delivery :: real
  overhead :: real
  total :: real

record Savings =
  monthly :: real
  yearly :: real
  percentage :: real

record Result =
  merchantCost :: Cost
  rootsCost :: Cost
  savings :: Savings
  packageConfig :: PackageConfig

text \<open>
  \<^verbatim>\<open>calculateSavings(input, packageType)\<close>. Each \<^verbatim>\<open>let x = 0\<close> followed by an
  \<^verbatim>\<open>if (packageConfig.services.includes(s)) { x = e }\<close> of the source is the binding
  \<open>x = (if includes_list \<dots> s then e else 0)\<close>; a block that assigns the merchant's and the
  provider's variable binds the pair.
\<close>

definition calculateSavings :: "MerchantInput \<Rightarrow> PackageType \<Rightarrow> Result" where
  "calculateSavings input packageType =
    (let packageConfig = PACKAGE_SERVICES packageType;
         assumptions = getAssumptions;
         totalItems = ordersPerMonth input * averageItemsPerOrder input;
         (merchantStorage, rootsStorage) =
           (if includes_list (services packageConfig) Storage then
              (warehouseSize input * costPerSqm (storageCfg assumptions)
                 * merchantOverheadMultiplier (storageCfg assumptions),
               warehouseSize input * costPerSqm (storageCfg assumptions))
            else (0, 0));
         (merchantHandlingIn, rootsHandlingIn) =
           (if includes_list (services packageConfig) HandlingIn then
              (let merchantHandlingInTime =
                     totalItems * merchantTimePerItem (handlingInCfg assumptions);
                   rootsHandlingInTime =
                     totalItems * rootsTimePerItem (handlingInCfg assumptions)
               in (merchantHandlingInTime * laborCostPerMinuteIn (handlingInCfg assumptions),
                   rootsHandlingInTime * laborCostPerMinuteIn (handlingInCfg assumptions)
                     * rootsEfficiencyMultiplierIn (handlingInCfg assumptions)))
            else (0, 0));
         (merchantHandlingOut, rootsHandlingOut) =
           (if includes_list (services packageConfig) HandlingOut then
              (let merchantHandlingOutTime =
                     ordersPerMonth input * merchantTimePerOrder (handlingOutCfg assumptions);
                   rootsHandlingOutTime =
                     ordersPerMonth input * rootsTimePerOrder (handlingOutCfg assumptions)
               in (merchantHandlingOutTime * laborCostPerMinuteOut (handlingOutCfg assumptions),
                   rootsHandlingOutTime * laborCostPerMinuteOut (handlingOutCfg assumptions)
                     * rootsEfficiencyMultiplierOut (handlingOutCfg assumptions)))
            else (0, 0));
         (merchantDelivery, rootsDelivery) =
           (if includes_list (services packageConfig) Delivery then
              (ordersPerMonth input * deliveryAmman24hrsMerchant (deliveryCfg assumptions),
               ordersPerMonth input * deliveryAmman24hrsRoots (deliveryCfg assumptions))
            else (0, 0));
         merchantOverhead =
           (merchantStorage + merchantHandlingIn + merchantHandlingOut + merchantDelivery)
             * merchantOverheadRate (overheadCfg assumptions);
         merchantTotal =
           merchantStorage + merchantHandlingIn + merchantHandlingOut + merchantDelivery
             + merchantOverhead;
         rootsOverhead' = rootsOverhead (overheadCfg assumptions);
         rootsTotal =
           rootsStorage + rootsHandlingIn + rootsHandlingOut + rootsDelivery + rootsOverhead';
         monthlySavings = merchantTotal - rootsTotal;
         yearlySavings = monthlySavings * 12;
         savingsPercentage =
           (if merchantTotal > 0 then (monthlySavings / merchantTotal) * 100 else 0)
     in \<lparr> merchantCost =
            \<lparr> storage = merchantStorage,
              handlingIn = merchantHandlingIn,
              handlingOut = merchantHandlingOut,
              delivery = merchantDelivery,
              overhead = merchantOverhead,
              total = merchantTotal \<rparr>,
          rootsCost =
            \<lparr> storage = rootsStorage,
              handlingIn = rootsHandlingIn,
              handlingOut = rootsHandlingOut,
              delivery = rootsDelivery,
              overhead = rootsOverhead',
              total = rootsTotal \<rparr>,
          savings =
            \<lparr> monthly = monthlySavings,
              yearly = yearlySavings,
              percentage = savingsPercentage \<rparr>,
          packageConfig = packageConfig \<rparr>)"

text \<open>The cost a \<^typ>\<open>Cost\<close> record holds for a service tag.\<close>

fun serviceCost :: "Cost \<Rightarrow> ServiceType \<Rightarrow> real" where
  "serviceCost c Storage = storage c"
| "serviceCost c HandlingIn = handlingIn c"
| "serviceCost c HandlingOut = handlingOut c"
| "serviceCost c Delivery = delivery c"

subsection \<open>The module object behind \<^verbatim>\<open>getAssumptions\<close>\<close>

text \<open>
  In \<^verbatim>\<open>assumptions.ts\<close> the table \<^verbatim>\<open>DEFAULT_ASSUMPTIONS\<close> is an exported module-level
  object, not frozen, and \<^verbatim>\<open>getAssumptions()\<close> returns that object at every call. Above,
  the object is the constant it is initialised with. Here the state of the module is
  explicit: a \<open>Module\<close> holds the content of the object at the time of a call,
  \<open>getAssumptions_in\<close> reads it, and \<open>calculateSavings_in\<close> is \<^verbatim>\<open>calculateSavings\<close> once
  more, line by line, taking the state of the module and returning the result together
  with the state after the call. The function has no assignment to the object or to any
  other module-level binding, so the state it returns is the one \<open>getAssumptions_in\<close>
  hands back.
\<close>

record Module =
  moduleAssumptions :: Assumptions

definition shippedModule :: Module where
  "shippedModule = \<lparr> moduleAssumptions = DEFAULT_ASSUMPTIONS \<rparr>"

definition getAssumptions_in :: "Module \<Rightarrow> Assumptions \<times> Module" where
  "getAssumptions_in m = (moduleAssumptions m, m)"

definition calculateSavings_in ::
  "Module \<Rightarrow> MerchantInput \<Rightarrow> PackageType \<Rightarrow> Result \<times> Module" where
  "calculateSavings_in m input packageType =
    (let packageConfig = PACKAGE_SERVICES packageType;
         (assumptions, m') = getAssumptions_in m;
         totalItems = ordersPerMonth input * averageItemsPerOrder input;
         (merchantStorage, rootsStorage) =
           (if includes_list (services packageConfig) Storage then
              (warehouseSize input * costPerSqm (storageCfg assumptions)
                 * merchantOverheadMultiplier (storageCfg assumptions),
               warehouseSize input * costPerSqm (storageCfg assumptions))
            else (0, 0));
         (merchantHandlingIn, rootsHandlingIn) =
           (if includes_list (services packageConfig) HandlingIn then
              (let merchantHandlingInTime =
                     totalItems * merchantTimePerItem (handlingInCfg assumptions);
                   rootsHandlingInTime =
                     totalItems * rootsTimePerItem (handlingInCfg assumptions)
               in (merchantHandlingInTime * laborCostPerMinuteIn (handlingInCfg assumptions),
                   rootsHandlingInTime * laborCostPerMinuteIn (handlingInCfg assumptions)
                     * rootsEfficiencyMultiplierIn (handlingInCfg assumptions)))
            else (0, 0));
         (merchantHandlingOut, rootsHandlingOut) =
           (if includes_list (services packageConfig) HandlingOut then
              (let merchantHandlingOutTime =
                     ordersPerMonth input * merchantTimePerOrder (handlingOutCfg assumptions);
                   rootsHandlingOutTime =
                     ordersPerMonth input * rootsTimePerOrder (handlingOutCfg assumptions)
               in (merchantHandlingOutTime * laborCostPerMinuteOut (handlingOutCfg assumptions),
                   rootsHandlingOutTime * laborCostPerMinuteOut (handlingOutCfg assumptions)
                     * rootsEfficiencyMultiplierOut (handlingOutCfg assumptions)))
            else (0, 0));
         (merchantDelivery, rootsDelivery) =
           (if includes_list (services packageConfig) Delivery then
              (ordersPerMonth input * deliveryAmman24hrsMerchant (deliveryCfg assumptions),
               ordersPerMonth input * deliveryAmman24hrsRoots (deliveryCfg assumptions))
            else (0, 0));
         merchantOverhead =
           (merchantStorage + merchantHandlingIn + merchantHandlingOut + merchantDelivery)
             * merchantOverheadRate (overheadCfg assumptions);
         merchantTotal =
           merchantStorage + merchantHandlingIn + merchantHandlingOut + merchantDelivery
             + merchantOverhead;
         rootsOverhead' = rootsOverhead (overheadCfg assumptions);
         rootsTotal =
           rootsStorage + rootsHandlingIn + rootsHandlingOut + rootsDelivery + rootsOverhead';
         monthlySavings = merchantTotal - rootsTotal;
         yearlySavings = monthlySavings * 12;
         savingsPercentage =
           (if merchantTotal > 0 then (monthlySavings / merchantTotal) * 100 else 0)
     in (\<lparr> merchantCost =
            \<lparr> storage = merchantStorage,
              handlingIn = merchantHandlingIn,
              handlingOut = merchantHandlingOut,
              delivery = merchantDelivery,
              overhead = merchantOverhead,
              total = merchantTotal \<rparr>,
          rootsCost =
            \<lparr> storage = rootsStorage,
              handlingIn = rootsHandlingIn,
              handlingOut = rootsHandlingOut,
              delivery = rootsDelivery,
              overhead = rootsOverhead',
              total = rootsTotal \<rparr>,
          savings =
            \<lparr> monthly = monthlySavings,
              yearly = yearlySavings,
              percentage = savingsPercentage \<rparr>,
          packageConfig = packageConfig \<rparr>,
        m'))"

subsection \<open>The contract of the specification\<close>

text \<open>
  The specification (section 4.1) describes the engine as a function of three arguments,
  \<^verbatim>\<open>computeSavings(input, pkg, assumptions)\<close>. The definitions of this subsection follow
  the specification's words, not the source, and are named \<open>spec_\<dots>\<close>; they are compared
  with \<open>calculateSavings\<close> in the last property. The bundles are those of section 3, the
  per-service formulas, the overhead, the totals and the savings those of section 4.1.
\<close>

fun spec_includedServices :: "PackageType \<Rightarrow> ServiceType list" where
  "spec_includedServices fulfillment = [Storage, HandlingIn, HandlingOut, Delivery]"
| "spec_includedServices store_pack = [Storage, HandlingIn, HandlingOut]"
| "spec_includedServices sort_pack = [HandlingIn, HandlingOut, Delivery]"

fun spec_merchantServiceCost :: "Assumptions \<Rightarrow> MerchantInput \<Rightarrow> ServiceType \<Rightarrow> real" where
  "spec_merchantServiceCost a i Storage =
     warehouseSize i * costPerSqm (storageCfg a) * merchantOverheadMultiplier (storageCfg a)"
| "spec_merchantServiceCost a i HandlingIn =
     (ordersPerMonth i * averageItemsPerOrder i) * merchantTimePerItem (handlingInCfg a)
       * laborCostPerMinuteIn (handlingInCfg a)"
| "spec_merchantServiceCost a i HandlingOut =
     ordersPerMonth i * merchantTimePerOrder (handlingOutCfg a)
       * laborCostPerMinuteOut (handlingOutCfg a)"
| "spec_merchantServiceCost a i Delivery =
     ordersPerMonth i * deliveryAmman24hrsMerchant (deliveryCfg a)"

fun spec_alternateServiceCost :: "Assumptions \<Rightarrow> MerchantInput \<Rightarrow> ServiceType \<Rightarrow> real" where
  "spec_alternateServiceCost a i Storage = warehouseSize i * costPerSqm (storageCfg a)"
| "spec_alternateServiceCost a i HandlingIn =
     (ordersPerMonth i * averageItemsPerOrder i) * rootsTimePerItem (handlingInCfg a)
       * laborCostPerMinuteIn (handlingInCfg a) * rootsEfficiencyMultiplierIn (handlingInCfg a)"
| "spec_alternateServiceCost a i HandlingOut =
     ordersPerMonth i * rootsTimePerOrder (handlingOutCfg a)
       * laborCostPerMinuteOut (handlingOutCfg a) * rootsEfficiencyMultiplierOut (handlingOutCfg a)"
| "spec_alternateServiceCost a i Delivery =
     ordersPerMonth i * deliveryAmman24hrsRoots (deliveryCfg a)"

record CostComparisonResult =
  merchant :: Cost
  alternate :: Cost
  savingsBlock :: Savings

definition spec_computeSavings ::
  "MerchantInput \<Rightarrow> PackageType \<Rightarrow> Assumptions \<Rightarrow> CostComparisonResult" where
  "spec_computeSavings i pkg a =
    (let included = spec_includedServices pkg;
         mcost = (\<lambda>s. if s \<in> set included then spec_merchantServiceCost a i s else 0);
         acost = (\<lambda>s. if s \<in> set included then spec_alternateServiceCost a i s else 0);
         msum = (\<Sum>s\<leftarrow>included. spec_merchantServiceCost a i s);
         asum = (\<Sum>s\<leftarrow>included. spec_alternateServiceCost a i s);
         moverhead = msum * merchantOverheadRate (overheadCfg a);
         aoverhead = rootsOverhead (overheadCfg a);
         mtotal = msum + moverhead;
         atotal = asum + aoverhead;
         monthlyS = mtotal - atotal
     in \<lparr> merchant =
            \<lparr> storage = mcost Storage, handlingIn = mcost HandlingIn,
              handlingOut = mcost HandlingOut, delivery = mcost Delivery,
              overhead = moverhead, total = mtotal \<rparr>,
          alternate =
            \<lparr> storage = acost Storage, handlingIn = acost HandlingIn,
              handlingOut = acost HandlingOut, delivery = acost Delivery,
              overhead = aoverhead, total = atotal \<rparr>,
          savingsBlock =
            \<lparr> monthly = monthlyS, yearly = monthlyS * 12,
              percentage = (if mtotal > 0 then monthlyS / mtotal * 100 else 0) \<rparr> \<rparr>)"

subsection \<open>Binary64 numbers\<close>

text \<open>
  Where the range and the rounding of a \<^verbatim>\<open>number\<close> decide a property, the arithmetic of
  IEEE-754 binary64 is modelled. A \<open>number\<close> is a finite real, one of the two infinities,
  or NaN. The two zeros are the one value \<open>Fin 0\<close>: they compare equal, and the only
  operation that tells them apart, a division by zero, is not reached by
  \<^verbatim>\<open>calculateSavings\<close>, whose one division is guarded by \<^verbatim>\<open>merchantTotal > 0\<close>.
\<close>

datatype number = Fin real | PosInf | NegInf | NaN

text \<open>
  The exponent of a non-negative real \<open>a\<close> below \<open>2 ^ 1024\<close>: the \<open>e\<close> with
  \<open>2 ^ e \<le> a < 2 ^ (e + 1)\<close>, searched upwards from 0 for \<open>a \<ge> 1\<close> and downwards
  otherwise, and never below \<open>-1022\<close> (the exponent of the subnormal values).
\<close>

primrec expo_up :: "nat \<Rightarrow> int \<Rightarrow> real \<Rightarrow> int" where
  "expo_up 0 e a = e"
| "expo_up (Suc n) e a = (if 2 powi (e + 1) \<le> a then expo_up n (e + 1) a else e)"

primrec expo_down :: "nat \<Rightarrow> int \<Rightarrow> real \<Rightarrow> int" where
  "expo_down 0 e a = e"
| "expo_down (Suc n) e a = (if a < 2 powi e then expo_down n (e - 1) a else e)"

definition expo :: "real \<Rightarrow> int" where
  "expo a = (if 1 \<le> a then expo_up 1023 0 a else expo_down 1022 0 a)"

text \<open>Rounding a real to the nearest integer, a tie going to the even one.\<close>

definition roundHalfEven :: "real \<Rightarrow> int" where
  "roundHalfEven y =
     (let f = \<lfloor>y\<rfloor>; d = y - of_int f
      in if d < 1 / 2 then f else if 1 / 2 < d then f + 1 else if even f then f else f + 1)"

text \<open>
  Rounding a real of magnitude below \<open>2 ^ 1024\<close> to the nearest binary64 value, ties to
  even, before the overflow rule: the unit in the last place of \<open>x\<close> is \<open>2 ^ (e - 52)\<close> for
  the exponent \<open>e\<close> of \<open>\<bar>x\<bar>\<close>, and \<open>x\<close> is rounded to the nearest multiple of it.
\<close>

definition roundNearest :: "real \<Rightarrow> real" where
  "roundNearest x =
     (if x = 0 then 0
      else let u = 2 powi (expo \<bar>x\<bar> - 52) in u * of_int (roundHalfEven (x / u)))"

text \<open>
  The result of an operation whose exact value is \<open>x\<close>. From \<open>2 ^ 1024 - 2 ^ 970\<close> on, the
  midpoint between the largest finite value and \<open>2 ^ 1024\<close>, the result is infinite.
\<close>

definition overflowThreshold :: real where
  "overflowThreshold = 2 ^ 1024 - 2 ^ 970"

definition round64 :: "real \<Rightarrow> number" where
  "round64 x =
     (if overflowThreshold \<le> x then PosInf
      else if x \<le> - overflowThreshold then NegInf
      else Fin (roundNearest x))"



fun add64 :: "number \<Rightarrow> number \<Rightarrow> number" where
  "add64 (Fin x) (Fin y) = round64 (x + y)"
| "add64 (Fin x) PosInf = PosInf"
| "add64 (Fin x) NegInf = NegInf"
| "add64 PosInf (Fin y) = PosInf"
| "add64 NegInf (Fin y) = NegInf"
| "add64 PosInf PosInf = PosInf"
| "add64 PosInf NegInf = NaN"
| "add64 NegInf PosInf = NaN"
| "add64 NegInf NegInf = NegInf"
| "add64 NaN b = NaN"
| "add64 a NaN = NaN"





fun isFinite :: "number \<Rightarrow> bool" where
  "isFinite (Fin x) = True"
| "isFinite a = False"

text \<open>
  A non-negative binary64 value: \<open>Infinity\<close>, or a finite non-negative real below the
  overflow threshold that rounding leaves unchanged. Only the proofs use it.
\<close>

fun canon :: "number \<Rightarrow> bool" where
  "canon (Fin x) = (0 \<le> x \<and> x < overflowThreshold \<and> roundNearest x = x)"
| "canon PosInf = True"
| "canon a = False"

subsection \<open>\<^verbatim>\<open>calculateSavings\<close> over binary64 numbers\<close>







subsection \<open>Concrete inputs\<close>

text \<open>The scenario of the specification's section 8, the all-zero input, and a table
  that differs from the default one in the storage price only.\<close>

definition scenarioInput :: MerchantInput where
  "scenarioInput = \<lparr> warehouseSize = 500, ordersPerMonth = 1000, averageItemsPerOrder = 2 \<rparr>"

definition zeroInput :: MerchantInput where
  "zeroInput = \<lparr> warehouseSize = 0, ordersPerMonth = 0, averageItemsPerOrder = 0 \<rparr>"

definition doubledStorageTable :: Assumptions where
  "doubledStorageTable =
     DEFAULT_ASSUMPTIONS
       \<lparr> storageCfg := \<lparr> costPerSqm = 24, merchantOverheadMultiplier = 1.25 \<rparr> \<rparr>"




section \<open>Properties\<close>

subsection \<open>Per-service formulas\<close>

text \<open>
  C1. For every input and every package, each service the package includes is costed by
  the stated formula: storage is \<open>warehouseSize \<times> costPerSqm \<times> merchantOverheadMultiplier\<close>
  for the merchant and \<open>warehouseSize \<times> costPerSqm\<close> for the provider; with
  \<open>totalItems = ordersPerMonth \<times> averageItemsPerOrder\<close>, handling-in is
  \<open>totalItems \<times> merchantTimePerItem \<times> laborCostPerMinute\<close> for the merchant and
  \<open>totalItems \<times> rootsTimePerItem \<times> laborCostPerMinute \<times> rootsEfficiencyMultiplier\<close> for the
  provider; handling-out has the same shape on \<open>ordersPerMonth\<close> with the per-order times;
  delivery is \<open>ordersPerMonth\<close> times the party's flat rate, with no efficiency multiplier.
  The table is the one \<open>getAssumptions\<close> returns.
\<close>

theorem C1_service_formulas:
  "(let r = calculateSavings input pkg;
        a = getAssumptions;
        svcs = services (PACKAGE_SERVICES pkg);
        totalItems = ordersPerMonth input * averageItemsPerOrder input
    in (includes_list svcs Storage \<longrightarrow>
          storage (merchantCost r)
            = warehouseSize input * costPerSqm (storageCfg a)
                * merchantOverheadMultiplier (storageCfg a)
          \<and> storage (rootsCost r) = warehouseSize input * costPerSqm (storageCfg a))
     \<and> (includes_list svcs HandlingIn \<longrightarrow>
          handlingIn (merchantCost r)
            = totalItems * merchantTimePerItem (handlingInCfg a)
                * laborCostPerMinuteIn (handlingInCfg a)
          \<and> handlingIn (rootsCost r)
            = totalItems * rootsTimePerItem (handlingInCfg a)
                * laborCostPerMinuteIn (handlingInCfg a)
                * rootsEfficiencyMultiplierIn (handlingInCfg a))
     \<and> (includes_list svcs HandlingOut \<longrightarrow>
          handlingOut (merchantCost r)
            = ordersPerMonth input * merchantTimePerOrder (handlingOutCfg a)
                * laborCostPerMinuteOut (handlingOutCfg a)
          \<and> handlingOut (rootsCost r)
            = ordersPerMonth input * rootsTimePerOrder (handlingOutCfg a)
                * laborCostPerMinuteOut (handlingOutCfg a)
                * rootsEfficiencyMultiplierOut (handlingOutCfg a))
     \<and> (includes_list svcs Delivery \<longrightarrow>
          delivery (merchantCost r)
            = ordersPerMonth input * deliveryAmman24hrsMerchant (deliveryCfg a)
          \<and> delivery (rootsCost r)
            = ordersPerMonth input * deliveryAmman24hrsRoots (deliveryCfg a)))"
  by (simp add: calculateSavings_def Let_def split_def)

theorem C1_service_formulas_witness:
  "includes_list (services (PACKAGE_SERVICES fulfillment)) Storage
   \<and> includes_list (services (PACKAGE_SERVICES fulfillment)) HandlingIn
   \<and> includes_list (services (PACKAGE_SERVICES fulfillment)) HandlingOut
   \<and> includes_list (services (PACKAGE_SERVICES fulfillment)) Delivery
   \<and> storage (merchantCost (calculateSavings scenarioInput fulfillment)) = 500 * 12 * 1.25
   \<and> storage (rootsCost (calculateSavings scenarioInput fulfillment)) = 500 * 12
   \<and> handlingIn (merchantCost (calculateSavings scenarioInput fulfillment))
       = (1000 * 2) * 2 * 0.5
   \<and> handlingIn (rootsCost (calculateSavings scenarioInput fulfillment))
       = (1000 * 2) * 1 * 0.5 * 0.85
   \<and> handlingOut (merchantCost (calculateSavings scenarioInput fulfillment)) = 1000 * 5 * 0.5
   \<and> handlingOut (rootsCost (calculateSavings scenarioInput fulfillment))
       = 1000 * 3 * 0.5 * 0.85
   \<and> delivery (merchantCost (calculateSavings scenarioInput fulfillment)) = 1000 * 2.2
   \<and> delivery (rootsCost (calculateSavings scenarioInput fulfillment)) = 1000 * 2.0"
  using C1_service_formulas [of scenarioInput fulfillment]
  by (simp add: Let_def scenarioInput_def getAssumptions_def DEFAULT_ASSUMPTIONS_def)

subsection \<open>Overhead and totals\<close>

text \<open>
  C2. For every input and every package, the merchant's overhead is the sum of the
  merchant's costs of the included services times \<open>merchantOverheadRate\<close>, the merchant's
  total is that sum plus the overhead, the provider's overhead is the constant
  \<open>rootsOverhead\<close> of the table, and the provider's total is the sum of the provider's costs
  of the included services plus that overhead. The sums range over the service list
  \<^verbatim>\<open>PACKAGE_SERVICES\<close> gives for the selected package, which is also the package
  configuration the result carries. No sign condition on the input is needed.
\<close>

theorem C2_totals:
  "(let r = calculateSavings input pkg;
        merchantSum =
          (\<Sum>s\<leftarrow>services (PACKAGE_SERVICES pkg). serviceCost (merchantCost r) s);
        rootsSum =
          (\<Sum>s\<leftarrow>services (PACKAGE_SERVICES pkg). serviceCost (rootsCost r) s)
    in overhead (merchantCost r)
         = merchantSum * merchantOverheadRate (overheadCfg getAssumptions)
     \<and> total (merchantCost r) = merchantSum + overhead (merchantCost r)
     \<and> overhead (rootsCost r) = rootsOverhead (overheadCfg getAssumptions)
     \<and> total (rootsCost r) = rootsSum + overhead (rootsCost r)
     \<and> packageConfig r = PACKAGE_SERVICES pkg)"
  by (cases pkg) (simp_all add: calculateSavings_def Let_def split_def)

subsection \<open>Savings\<close>

text \<open>
  C3. For every input and package, the monthly savings are the merchant's total minus the
  provider's total, and the yearly savings are twelve times the monthly savings.
\<close>

theorem C3_savings_block:
  "monthly (savings (calculateSavings input pkg))
     = total (merchantCost (calculateSavings input pkg))
       - total (rootsCost (calculateSavings input pkg))
   \<and> yearly (savings (calculateSavings input pkg))
     = 12 * monthly (savings (calculateSavings input pkg))"
  by (simp add: calculateSavings_def Let_def split_def)

text \<open>
  C4. For every input and package, the savings percentage is 0 when the merchant's total
  is 0, and \<open>100 \<times> monthlySavings / merchantTotal\<close> when the merchant's total is positive.
  \<open>calculateSavings\<close> is a total function with no error value: the quotient is only taken
  under the guard \<open>merchantTotal > 0\<close>.
\<close>

theorem C4_savings_percentage:
  "(let r = calculateSavings input pkg
    in (total (merchantCost r) = 0 \<longrightarrow> percentage (savings r) = 0)
     \<and> (total (merchantCost r) > 0 \<longrightarrow>
          percentage (savings r) = 100 * monthly (savings r) / total (merchantCost r)))"
  by (simp add: calculateSavings_def Let_def split_def)

theorem C4_savings_percentage_witness:
  "total (merchantCost (calculateSavings zeroInput sort_pack)) = 0
   \<and> percentage (savings (calculateSavings zeroInput sort_pack)) = 0
   \<and> total (merchantCost (calculateSavings scenarioInput fulfillment)) > 0
   \<and> percentage (savings (calculateSavings scenarioInput fulfillment))
       = 100 * monthly (savings (calculateSavings scenarioInput fulfillment))
           / total (merchantCost (calculateSavings scenarioInput fulfillment))"
proof -
  have z: "total (merchantCost (calculateSavings zeroInput sort_pack)) = 0"
    by (simp add: calculateSavings_def Let_def zeroInput_def)
  have p: "total (merchantCost (calculateSavings scenarioInput fulfillment)) > 0"
    by (simp add: calculateSavings_def Let_def scenarioInput_def getAssumptions_def
        DEFAULT_ASSUMPTIONS_def)
  from z p C4_savings_percentage [of zeroInput sort_pack]
    C4_savings_percentage [of scenarioInput fulfillment]
  show ?thesis by (simp add: Let_def)
qed

subsection \<open>The scenario of the specification\<close>

text \<open>
  C5. With warehouse size 500, 1000 orders per month, 2 items per order, the fulfillment
  package and the default table (the one \<open>getAssumptions\<close> returns), the result is:
  merchant storage 7500, provider storage 6000, merchant handling-in 2000, provider
  handling-in 850, merchant handling-out 2500, provider handling-out 1275, merchant
  delivery 2200, provider delivery 2000, merchant overhead 2840, merchant total 17040,
  provider overhead 0, provider total 10125, monthly savings 6915, yearly savings 82980,
  and a savings percentage of 691500 / 17040, which is 40.58 to two decimals.
\<close>

theorem C5_scenario:
  "(let r = calculateSavings
              \<lparr> warehouseSize = 500, ordersPerMonth = 1000, averageItemsPerOrder = 2 \<rparr>
              fulfillment
    in getAssumptions = DEFAULT_ASSUMPTIONS
     \<and> storage (merchantCost r) = 7500 \<and> storage (rootsCost r) = 6000
     \<and> handlingIn (merchantCost r) = 2000 \<and> handlingIn (rootsCost r) = 850
     \<and> handlingOut (merchantCost r) = 2500 \<and> handlingOut (rootsCost r) = 1275
     \<and> delivery (merchantCost r) = 2200 \<and> delivery (rootsCost r) = 2000
     \<and> overhead (merchantCost r) = 2840 \<and> total (merchantCost r) = 17040
     \<and> overhead (rootsCost r) = 0 \<and> total (rootsCost r) = 10125
     \<and> monthly (savings r) = 6915 \<and> yearly (savings r) = 82980
     \<and> percentage (savings r) = 691500 / 17040
     \<and> \<bar>percentage (savings r) - 40.58\<bar> < 0.005)"
  by (simp add: calculateSavings_def Let_def getAssumptions_def DEFAULT_ASSUMPTIONS_def)

subsection \<open>Packages\<close>

text \<open>
  C6. The fulfillment package has all four services, store-pack has storage, handling-in
  and handling-out, sort-pack has handling-in, handling-out and delivery. For every input
  and package, a service the package does not include costs 0 for the merchant and for
  the provider; and a service the package includes costs each party what it costs under
  the fulfillment package, where no service is excluded.
\<close>

theorem C6_excluded_services:
  "services (PACKAGE_SERVICES fulfillment) = [Storage, HandlingIn, HandlingOut, Delivery]
   \<and> services (PACKAGE_SERVICES store_pack) = [Storage, HandlingIn, HandlingOut]
   \<and> services (PACKAGE_SERVICES sort_pack) = [HandlingIn, HandlingOut, Delivery]
   \<and> (\<not> includes_list (services (PACKAGE_SERVICES pkg)) s \<longrightarrow>
        serviceCost (merchantCost (calculateSavings input pkg)) s = 0
        \<and> serviceCost (rootsCost (calculateSavings input pkg)) s = 0)
   \<and> (includes_list (services (PACKAGE_SERVICES pkg)) s \<longrightarrow>
        serviceCost (merchantCost (calculateSavings input pkg)) s
          = serviceCost (merchantCost (calculateSavings input fulfillment)) s
        \<and> serviceCost (rootsCost (calculateSavings input pkg)) s
          = serviceCost (rootsCost (calculateSavings input fulfillment)) s)"
  by (cases pkg; cases s) (simp_all add: calculateSavings_def Let_def split_def)

theorem C6_excluded_services_witness:
  "\<not> includes_list (services (PACKAGE_SERVICES store_pack)) Delivery
   \<and> serviceCost (merchantCost (calculateSavings scenarioInput store_pack)) Delivery = 0
   \<and> serviceCost (rootsCost (calculateSavings scenarioInput store_pack)) Delivery = 0
   \<and> includes_list (services (PACKAGE_SERVICES sort_pack)) HandlingIn
   \<and> serviceCost (merchantCost (calculateSavings scenarioInput sort_pack)) HandlingIn
       = serviceCost (merchantCost (calculateSavings scenarioInput fulfillment)) HandlingIn
   \<and> serviceCost (rootsCost (calculateSavings scenarioInput sort_pack)) HandlingIn
       = serviceCost (rootsCost (calculateSavings scenarioInput fulfillment)) HandlingIn"
proof -
  have e: "\<not> includes_list (services (PACKAGE_SERVICES store_pack)) Delivery"
    and i: "includes_list (services (PACKAGE_SERVICES sort_pack)) HandlingIn"
    by simp_all
  from e i C6_excluded_services [of store_pack Delivery scenarioInput]
    C6_excluded_services [of sort_pack HandlingIn scenarioInput]
  show ?thesis by blast
qed

text \<open>
  C8. For every input, every two packages and every service both include, the cost of
  that service is the same under both packages, for the merchant and for the provider.
\<close>

theorem C8_package_switch:
  assumes "includes_list (services (PACKAGE_SERVICES p1)) s"
    and "includes_list (services (PACKAGE_SERVICES p2)) s"
  shows "serviceCost (merchantCost (calculateSavings input p1)) s
           = serviceCost (merchantCost (calculateSavings input p2)) s
         \<and> serviceCost (rootsCost (calculateSavings input p1)) s
           = serviceCost (rootsCost (calculateSavings input p2)) s"
  using assms
  by (cases p1; cases p2; cases s) (simp_all add: calculateSavings_def Let_def split_def)

theorem C8_package_switch_witness:
  "includes_list (services (PACKAGE_SERVICES store_pack)) HandlingOut
   \<and> includes_list (services (PACKAGE_SERVICES sort_pack)) HandlingOut
   \<and> serviceCost (merchantCost (calculateSavings scenarioInput store_pack)) HandlingOut
       = serviceCost (merchantCost (calculateSavings scenarioInput sort_pack)) HandlingOut
   \<and> serviceCost (rootsCost (calculateSavings scenarioInput store_pack)) HandlingOut
       = serviceCost (rootsCost (calculateSavings scenarioInput sort_pack)) HandlingOut"
proof -
  have a: "includes_list (services (PACKAGE_SERVICES store_pack)) HandlingOut"
    and b: "includes_list (services (PACKAGE_SERVICES sort_pack)) HandlingOut"
    by simp_all
  from a b C8_package_switch [OF a b, of scenarioInput]
  show ?thesis by blast
qed

subsection \<open>Monotonicity in the order volume\<close>

text \<open>
  C7. For every input and package, under the default table: if the orders per month are
  raised to \<open>n\<close> and the warehouse size and the items per order are kept, then the
  handling-out cost and the delivery cost do not decrease, for the merchant and for the
  provider. No sign condition on the input is needed.
\<close>

theorem C7_orders_monotone:
  assumes "ordersPerMonth input \<le> n"
  shows "handlingOut (merchantCost (calculateSavings input pkg))
           \<le> handlingOut (merchantCost (calculateSavings (input\<lparr>ordersPerMonth := n\<rparr>) pkg))
       \<and> handlingOut (rootsCost (calculateSavings input pkg))
           \<le> handlingOut (rootsCost (calculateSavings (input\<lparr>ordersPerMonth := n\<rparr>) pkg))
       \<and> delivery (merchantCost (calculateSavings input pkg))
           \<le> delivery (merchantCost (calculateSavings (input\<lparr>ordersPerMonth := n\<rparr>) pkg))
       \<and> delivery (rootsCost (calculateSavings input pkg))
           \<le> delivery (rootsCost (calculateSavings (input\<lparr>ordersPerMonth := n\<rparr>) pkg))"
  using assms
  by (simp add: calculateSavings_def Let_def split_def getAssumptions_def
      DEFAULT_ASSUMPTIONS_def)

theorem C7_orders_monotone_witness:
  "ordersPerMonth scenarioInput \<le> 2000
   \<and> handlingOut (merchantCost (calculateSavings scenarioInput fulfillment))
       \<le> handlingOut (merchantCost
            (calculateSavings (scenarioInput\<lparr>ordersPerMonth := 2000\<rparr>) fulfillment))
   \<and> handlingOut (rootsCost (calculateSavings scenarioInput fulfillment))
       \<le> handlingOut (rootsCost
            (calculateSavings (scenarioInput\<lparr>ordersPerMonth := 2000\<rparr>) fulfillment))
   \<and> delivery (merchantCost (calculateSavings scenarioInput fulfillment))
       \<le> delivery (merchantCost
            (calculateSavings (scenarioInput\<lparr>ordersPerMonth := 2000\<rparr>) fulfillment))
   \<and> delivery (rootsCost (calculateSavings scenarioInput fulfillment))
       \<le> delivery (rootsCost
            (calculateSavings (scenarioInput\<lparr>ordersPerMonth := 2000\<rparr>) fulfillment))"
proof -
  have h: "ordersPerMonth scenarioInput \<le> 2000"
    by (simp add: scenarioInput_def)
  from h C7_orders_monotone [OF h, of fulfillment]
  show ?thesis by blast
qed

subsection \<open>Savings over binary64 numbers\<close>

text \<open>The exponent search meets its specification.\<close>

lemma two_powi_Suc: "(2::real) powi (e + 1) = 2 * 2 powi e"
  by (simp add: power_int_add)










text \<open>Rounding to an integer, ties to even, is monotone and fixes the integers.\<close>

lemma roundHalfEven_of_int [simp]: "roundHalfEven (of_int k) = k"
  by (simp add: roundHalfEven_def)











lemma roundNearest_0 [simp]: "roundNearest 0 = 0"
  by (simp add: roundNearest_def)




















lemma canon_cases:
  assumes "canon a"
  obtains x where "a = Fin x" and "0 \<le> x" and "x < overflowThreshold" and "roundNearest x = x"
  | "a = PosInf"
  using assms by (cases a) simp_all
















lemma add64_finite:
  "canon a \<Longrightarrow> canon b \<Longrightarrow> isFinite (add64 a b) \<Longrightarrow> isFinite a \<and> isFinite b"
  by (cases a; cases b) simp_all































subsection \<open>Where the assumptions table comes from\<close>

lemma calculateSavings_in_state:
  "snd (calculateSavings_in m input pkg) = m"
  by (simp add: calculateSavings_in_def getAssumptions_in_def Let_def split_def)

lemma calculateSavings_in_shipped:
  "fst (calculateSavings_in shippedModule input pkg) = calculateSavings input pkg"
  by (simp add: calculateSavings_in_def calculateSavings_def getAssumptions_in_def
      getAssumptions_def shippedModule_def Let_def split_def)

lemma calculateSavings_in_contract:
  "services (packageConfig (fst (calculateSavings_in m input pkg))) = spec_includedServices pkg"
  "merchantCost (fst (calculateSavings_in m input pkg))
     = merchant (spec_computeSavings input pkg (moduleAssumptions m))"
  "rootsCost (fst (calculateSavings_in m input pkg))
     = alternate (spec_computeSavings input pkg (moduleAssumptions m))"
  "savings (fst (calculateSavings_in m input pkg))
     = savingsBlock (spec_computeSavings input pkg (moduleAssumptions m))"
  by (cases pkg;
      simp add: calculateSavings_in_def spec_computeSavings_def getAssumptions_in_def Let_def
        split_def add.assoc)+

text \<open>
  C9, as amended. \<^verbatim>\<open>calculateSavings(input, packageType)\<close> has no parameter for the
  assumptions table. At every call it reads the table through \<^verbatim>\<open>getAssumptions()\<close> from
  the module-level object \<^verbatim>\<open>DEFAULT_ASSUMPTIONS\<close>, and it leaves the state of the module
  as it found it. The costs and savings of its result are those the three-argument
  contract of the specification gives for the input, the package and the table the
  module holds at the time of the call, and the services of the package configuration it
  returns are those of the contract's bundle: the result depends on the input, the
  package and that table only. A second call with the same input and package, made in
  the state the first call leaves, returns the same result. With the module as shipped
  the table is \<open>DEFAULT_ASSUMPTIONS\<close>, the value \<open>getAssumptions\<close> stands for in
  \<open>calculateSavings\<close>, and the result is that of \<open>calculateSavings\<close>.
\<close>

theorem C9_table_is_module_constant:
  "getAssumptions = DEFAULT_ASSUMPTIONS
   \<and> services (packageConfig (calculateSavings input pkg)) = spec_includedServices pkg
   \<and> merchantCost (calculateSavings input pkg)
       = merchant (spec_computeSavings input pkg DEFAULT_ASSUMPTIONS)
   \<and> rootsCost (calculateSavings input pkg)
       = alternate (spec_computeSavings input pkg DEFAULT_ASSUMPTIONS)
   \<and> savings (calculateSavings input pkg)
       = savingsBlock (spec_computeSavings input pkg DEFAULT_ASSUMPTIONS)
   \<and> snd (calculateSavings_in m input pkg) = m
   \<and> services (packageConfig (fst (calculateSavings_in m input pkg)))
       = spec_includedServices pkg
   \<and> merchantCost (fst (calculateSavings_in m input pkg))
       = merchant (spec_computeSavings input pkg (moduleAssumptions m))
   \<and> rootsCost (fst (calculateSavings_in m input pkg))
       = alternate (spec_computeSavings input pkg (moduleAssumptions m))
   \<and> savings (fst (calculateSavings_in m input pkg))
       = savingsBlock (spec_computeSavings input pkg (moduleAssumptions m))
   \<and> fst (calculateSavings_in (snd (calculateSavings_in m input pkg)) input pkg)
       = fst (calculateSavings_in m input pkg)
   \<and> moduleAssumptions shippedModule = DEFAULT_ASSUMPTIONS
   \<and> fst (calculateSavings_in shippedModule input pkg) = calculateSavings input pkg"
proof -
  have shipped: "calculateSavings input pkg = fst (calculateSavings_in shippedModule input pkg)"
    by (simp add: calculateSavings_in_shipped)
  have tbl: "moduleAssumptions shippedModule = DEFAULT_ASSUMPTIONS"
    by (simp add: shippedModule_def)
  have old: "services (packageConfig (calculateSavings input pkg)) = spec_includedServices pkg
     \<and> merchantCost (calculateSavings input pkg)
         = merchant (spec_computeSavings input pkg DEFAULT_ASSUMPTIONS)
     \<and> rootsCost (calculateSavings input pkg)
         = alternate (spec_computeSavings input pkg DEFAULT_ASSUMPTIONS)
     \<and> savings (calculateSavings input pkg)
         = savingsBlock (spec_computeSavings input pkg DEFAULT_ASSUMPTIONS)"
    unfolding shipped
    using calculateSavings_in_contract [of shippedModule input pkg]
    by (simp only: tbl)
  show ?thesis
    using old tbl
    by (simp add: getAssumptions_def calculateSavings_in_state calculateSavings_in_shipped
        calculateSavings_in_contract)
qed

text \<open>
  C9 as stated fails: were the table an injected parameter, the result for a table with
  a storage price of 24 in place of 12 would be the contract's result for that table.
  The source function cannot be handed a table, and its storage cost for the scenario
  stays 7500 where the contract gives 15000.
\<close>

theorem C9_injected_table_counterexample:
  "storage (merchantCost (calculateSavings scenarioInput fulfillment)) = 7500
   \<and> storage (merchant (spec_computeSavings scenarioInput fulfillment doubledStorageTable))
       = 15000
   \<and> merchantCost (calculateSavings scenarioInput fulfillment)
       \<noteq> merchant (spec_computeSavings scenarioInput fulfillment doubledStorageTable)"
proof -
  have c: "storage (merchantCost (calculateSavings scenarioInput fulfillment)) = 7500"
    by (simp add: calculateSavings_def Let_def scenarioInput_def getAssumptions_def
        DEFAULT_ASSUMPTIONS_def)
  have s: "storage (merchant (spec_computeSavings scenarioInput fulfillment
             doubledStorageTable)) = 15000"
    by (simp add: spec_computeSavings_def Let_def scenarioInput_def doubledStorageTable_def
        DEFAULT_ASSUMPTIONS_def)
  from c s have "merchantCost (calculateSavings scenarioInput fulfillment)
       \<noteq> merchant (spec_computeSavings scenarioInput fulfillment doubledStorageTable)"
    by auto
  with c s show ?thesis by simp
qed

end
